theory Spec2Isabelle
  imports Main
begin

section \<open>Python values, exceptions and the libraries the service calls\<close>

text \<open>
  The service (\<^verbatim>\<open>services/api-service/app\<close>) is a FastAPI application with three
  handlers: \<^verbatim>\<open>health_check\<close>, \<^verbatim>\<open>get_users\<close> and \<^verbatim>\<open>get_user\<close>. Each one performs one
  \<^verbatim>\<open>httpx\<close> GET against the data service and translates the outcome.

  A value decoded by \<^verbatim>\<open>response.json()\<close> is a Python object: \<^verbatim>\<open>None\<close>, a bool, an
  unbounded int, a float, a str, a list or a dict with str keys (kept in insertion
  order, looked up with \<open>map_of\<close>). Nothing below computes with a float, so the type
  of floats is left unspecified. One \<open>char\<close> stands for one character of a Python str.
\<close>

typedecl float64

datatype py_value =
    PyNone
  | PyBool bool
  | PyInt int
  | PyFloat float64
  | PyStr string
  | PyList "py_value list"
  | PyDict "(string \<times> py_value) list"

section \<open>\<^verbatim>\<open>app/models.py\<close>\<close>

record User =
  id' :: int
  name :: string
  email :: string

record HealthResponse =
  status :: string
  service :: string
  version :: string
  data_service_status :: "string option"

record ErrorResponse =
  detail :: string
  status_code :: int

text \<open>The JSON object an \<^verbatim>\<open>ErrorResponse\<close> serialises to (\<^verbatim>\<open>model_dump\<close>).\<close>

definition ErrorResponse_dump :: "ErrorResponse \<Rightarrow> py_value" where
  "ErrorResponse_dump e = PyDict [(''detail'', PyStr (detail e)), (''status_code'', PyInt (status_code e))]"

section \<open>The libraries: \<^verbatim>\<open>httpx\<close> and \<^verbatim>\<open>pydantic\<close>\<close>

text \<open>
  The exceptions a library call can raise, as far as the handlers tell them apart:
  an instance of \<^verbatim>\<open>httpx.RequestError\<close> (connection refused, DNS failure, every
  timeout, ...), carrying \<^verbatim>\<open>type(e).__name__\<close>; or any other \<^verbatim>\<open>Exception\<close>, carrying
  \<^verbatim>\<open>type(e).__name__\<close> and \<^verbatim>\<open>str(e)\<close>. \<^verbatim>\<open>httpx.HTTPStatusError\<close> is not among them:
  only \<^verbatim>\<open>raise_for_status\<close> raises it (see \<open>raised\<close> below).
\<close>

datatype py_exception =
    RequestError string
  | OtherException string string

text \<open>
  An \<^verbatim>\<open>httpx.Response\<close>: the fields the handlers read. \<open>json\<close> is what the call
  \<^verbatim>\<open>response.json()\<close> decodes, \<open>None\<close> when the body is not valid JSON: the call then
  raises a \<^verbatim>\<open>JSONDecodeError\<close>, a \<^verbatim>\<open>ValueError\<close> and no \<^verbatim>\<open>httpx\<close> exception.
\<close>

record response =
  status_code :: int
  text' :: string
  json :: "py_value option"

text \<open>What propagates inside the \<^verbatim>\<open>try\<close> block of a handler.\<close>

datatype raised =
    HTTPStatusError response
  | Lib py_exception

text \<open>
  What lies outside the repository, taken as a parameter:
  \<^item> \<open>client_get url\<close>: the outcome of \<^verbatim>\<open>await client.get(url)\<close>, a response or an
    exception (a timeout of the client is an \<^verbatim>\<open>httpx.RequestError\<close>);
  \<^item> \<open>lax_int v\<close>: how pydantic coerces a value that is not an int to an \<^verbatim>\<open>int\<close> field
    (lax mode), \<open>None\<close> when it refuses;
  \<^item> \<open>error_text cls v\<close>: the text \<^verbatim>\<open>str(e)\<close> of an exception of class \<open>cls\<close> that Python
    or pydantic raises on the value \<open>v\<close>.
\<close>

record runtime =
  client_get :: "string \<Rightarrow> py_exception + response"
  lax_int :: "py_value \<Rightarrow> int option"
  error_text :: "string \<Rightarrow> py_value \<Rightarrow> string"

subsection \<open>\<^verbatim>\<open>str\<close> of an int, as an f-string renders it\<close>

definition digit_char :: "nat \<Rightarrow> char" where
  "digit_char d = ''0123456789'' ! d"

function str_nat :: "nat \<Rightarrow> string" where
  "str_nat n = (if n < 10 then [digit_char n] else str_nat (n div 10) @ [digit_char (n mod 10)])"
  by pat_completeness auto
termination
  by (relation "measure id") auto

declare str_nat.simps [simp del]

definition str_int :: "int \<Rightarrow> string" where
  "str_int i = (if i < 0 then CHR ''-'' # str_nat (nat (- i)) else str_nat (nat i))"

subsection \<open>\<^verbatim>\<open>httpx.Response\<close>: \<^verbatim>\<open>raise_for_status\<close> and \<^verbatim>\<open>json\<close>\<close>

definition is_success :: "response \<Rightarrow> bool" where
  "is_success r = (200 \<le> status_code r \<and> status_code r \<le> 299)"

definition raise_for_status :: "response \<Rightarrow> raised + unit" where
  "raise_for_status r = (if is_success r then Inr () else Inl (HTTPStatusError r))"

definition response_json :: "runtime \<Rightarrow> response \<Rightarrow> py_exception + py_value" where
  "response_json rt r =
     (case json r of
        None \<Rightarrow> Inl (OtherException ''JSONDecodeError''
                       (error_text rt ''JSONDecodeError'' (PyStr (text' r))))
      | Some v \<Rightarrow> Inr v)"

subsection \<open>Validation of a \<^verbatim>\<open>User\<close> by pydantic\<close>

text \<open>
  \<^verbatim>\<open>id: int = Field(...)\<close>, \<^verbatim>\<open>name: str = Field(..., min_length=1, max_length=100)\<close>,
  \<^verbatim>\<open>email: str = Field(...)\<close>: every field is required; an int is taken as it is and
  any other value goes through the lax coercion; a \<^verbatim>\<open>str\<close> field takes a str only;
  keys that name no field are ignored. Any failure raises one \<^verbatim>\<open>ValidationError\<close>.
\<close>

definition validate_int :: "runtime \<Rightarrow> py_value \<Rightarrow> int option" where
  "validate_int rt v = (case v of PyInt n \<Rightarrow> Some n | _ \<Rightarrow> lax_int rt v)"

definition validate_str :: "nat option \<Rightarrow> nat option \<Rightarrow> py_value \<Rightarrow> string option" where
  "validate_str min_length max_length v =
     (case v of
        PyStr s \<Rightarrow>
          if (case min_length of None \<Rightarrow> False | Some lo \<Rightarrow> length s < lo) then None
          else if (case max_length of None \<Rightarrow> False | Some hi \<Rightarrow> hi < length s) then None
          else Some s
      | _ \<Rightarrow> None)"

definition required :: "(string \<times> py_value) list \<Rightarrow> string \<Rightarrow> (py_value \<Rightarrow> 'a option) \<Rightarrow> 'a option" where
  "required kwargs field validator =
     (case map_of kwargs field of None \<Rightarrow> None | Some v \<Rightarrow> validator v)"

definition User_init :: "runtime \<Rightarrow> (string \<times> py_value) list \<Rightarrow> py_exception + User" where
  "User_init rt kwargs =
     (case (required kwargs ''id'' (validate_int rt),
            required kwargs ''name'' (validate_str (Some 1) (Some 100)),
            required kwargs ''email'' (validate_str None None)) of
        (Some i, Some n, Some e) \<Rightarrow> Inr \<lparr>id' = i, name = n, email = e\<rparr>
      | _ \<Rightarrow> Inl (OtherException ''ValidationError''
                    (error_text rt ''ValidationError'' (PyDict kwargs))))"

text \<open>\<^verbatim>\<open>User(**user)\<close>: the argument after \<^verbatim>\<open>**\<close> must be a mapping.\<close>

definition User_unpack :: "runtime \<Rightarrow> py_value \<Rightarrow> py_exception + User" where
  "User_unpack rt user =
     (case user of
        PyDict kwargs \<Rightarrow> User_init rt kwargs
      | _ \<Rightarrow> Inl (OtherException ''TypeError'' (error_text rt ''TypeError'' user)))"

text \<open>
  A runtime in which every GET has the same outcome and pydantic coerces nothing, for
  the concrete examples below.
\<close>

definition fixed_upstream :: "py_exception + response \<Rightarrow> runtime" where
  "fixed_upstream outcome =
     \<lparr>client_get = (\<lambda>url. outcome), lax_int = (\<lambda>v. None), error_text = (\<lambda>cls v. cls)\<rparr>"

section \<open>\<^verbatim>\<open>app/config.py\<close>\<close>

record Settings =
  data_service_url :: string
  port :: int
  log_level :: string
  app_name :: string
  app_version :: string
  description :: string

definition default_settings :: Settings where
  "default_settings =
     \<lparr>data_service_url = ''http://data-service:8080'',
      port = 8000,
      log_level = ''INFO'',
      app_name = ''API Service'',
      app_version = ''0.1.0'',
      description = ''Python FastAPI service for Kubernetes local development''\<rparr>"

section \<open>\<^verbatim>\<open>app/routers/health.py\<close>\<close>

definition health_check :: "runtime \<Rightarrow> Settings \<Rightarrow> HealthResponse" where
  "health_check rt settings =
     (let data_service_status =
        (case client_get rt (data_service_url settings @ ''/actuator/health'') of
           Inr response \<Rightarrow>
             if status_code response = 200 then ''connected''
             else ''unhealthy (status: '' @ str_int (status_code response) @ '')''
         | Inl (RequestError n) \<Rightarrow> ''unreachable ('' @ n @ '')''
         | Inl (OtherException n m) \<Rightarrow> ''error ('' @ n @ '')'')
      in \<lparr>status = ''healthy'',
          service = app_name settings,
          version = app_version settings,
          data_service_status = Some data_service_status\<rparr>)"

section \<open>\<^verbatim>\<open>app/routers/users.py\<close>\<close>

text \<open>\<^verbatim>\<open>raise HTTPException(status_code=..., detail=...)\<close>\<close>

datatype http_exception = HTTPException int string

abbreviation (input) HTTP_200_OK :: int where "HTTP_200_OK \<equiv> 200"
abbreviation (input) HTTP_404_NOT_FOUND :: int where "HTTP_404_NOT_FOUND \<equiv> 404"
abbreviation (input) HTTP_500_INTERNAL_SERVER_ERROR :: int where "HTTP_500_INTERNAL_SERVER_ERROR \<equiv> 500"
abbreviation (input) HTTP_503_SERVICE_UNAVAILABLE :: int where "HTTP_503_SERVICE_UNAVAILABLE \<equiv> 503"

text \<open>Statements of a \<^verbatim>\<open>try\<close> block in sequence: the first one that raises ends the block.\<close>

definition and_then :: "'e + 'a \<Rightarrow> ('a \<Rightarrow> 'e + 'b) \<Rightarrow> 'e + 'b" where
  "and_then m f = (case m of Inl e \<Rightarrow> Inl e | Inr x \<Rightarrow> f x)"

definition lib :: "py_exception + 'a \<Rightarrow> raised + 'a" where
  "lib m = (case m of Inl e \<Rightarrow> Inl (Lib e) | Inr x \<Rightarrow> Inr x)"

text \<open>
  \<^verbatim>\<open>for user in users_data\<close>: a list yields its elements, a dict its keys, a str its
  characters; anything else JSON can hold is not iterable.
\<close>

definition py_iter :: "runtime \<Rightarrow> py_value \<Rightarrow> py_exception + py_value list" where
  "py_iter rt v =
     (case v of
        PyList xs \<Rightarrow> Inr xs
      | PyDict kvs \<Rightarrow> Inr (map (\<lambda>kv. PyStr (fst kv)) kvs)
      | PyStr s \<Rightarrow> Inr (map (\<lambda>c. PyStr [c]) s)
      | _ \<Rightarrow> Inl (OtherException ''TypeError'' (error_text rt ''TypeError'' v)))"

text \<open>\<^verbatim>\<open>[User(**user) for user in ...]\<close>, element by element, in order.\<close>

fun User_list :: "runtime \<Rightarrow> py_value list \<Rightarrow> py_exception + User list" where
  "User_list rt [] = Inr []"
| "User_list rt (user # rest) =
     (case User_unpack rt user of
        Inl e \<Rightarrow> Inl e
      | Inr u \<Rightarrow> (case User_list rt rest of Inl e \<Rightarrow> Inl e | Inr us \<Rightarrow> Inr (u # us)))"

definition get_users_try :: "runtime \<Rightarrow> Settings \<Rightarrow> raised + User list" where
  "get_users_try rt settings =
     and_then (lib (client_get rt (data_service_url settings @ ''/data/users''))) (\<lambda>response.
     and_then (raise_for_status response) (\<lambda>_.
     and_then (lib (response_json rt response)) (\<lambda>users_data.
     and_then (lib (py_iter rt users_data)) (\<lambda>items.
     lib (User_list rt items)))))"

definition get_users :: "runtime \<Rightarrow> Settings \<Rightarrow> http_exception + User list" where
  "get_users rt settings =
     (case get_users_try rt settings of
        Inr users \<Rightarrow> Inr users
      | Inl (HTTPStatusError response) \<Rightarrow>
          Inl (HTTPException (status_code response) (''Data service error: '' @ text' response))
      | Inl (Lib (RequestError n)) \<Rightarrow>
          Inl (HTTPException HTTP_503_SERVICE_UNAVAILABLE (''Data service unavailable: '' @ n))
      | Inl (Lib (OtherException n m)) \<Rightarrow>
          Inl (HTTPException HTTP_500_INTERNAL_SERVER_ERROR (''Internal error: '' @ m)))"

definition get_user_try :: "runtime \<Rightarrow> Settings \<Rightarrow> int \<Rightarrow> raised + User" where
  "get_user_try rt settings user_id =
     and_then (lib (client_get rt (data_service_url settings @ ''/data/users/'' @ str_int user_id)))
       (\<lambda>response.
     and_then (raise_for_status response) (\<lambda>_.
     and_then (lib (response_json rt response)) (\<lambda>user_data.
     lib (User_unpack rt user_data))))"

definition get_user :: "runtime \<Rightarrow> Settings \<Rightarrow> int \<Rightarrow> http_exception + User" where
  "get_user rt settings user_id =
     (case get_user_try rt settings user_id of
        Inr user \<Rightarrow> Inr user
      | Inl (HTTPStatusError response) \<Rightarrow>
          if status_code response = 404
          then Inl (HTTPException HTTP_404_NOT_FOUND
                      (''User with ID '' @ str_int user_id @ '' not found''))
          else Inl (HTTPException (status_code response)
                      (''Data service error: '' @ text' response))
      | Inl (Lib (RequestError n)) \<Rightarrow>
          Inl (HTTPException HTTP_503_SERVICE_UNAVAILABLE (''Data service unavailable: '' @ n))
      | Inl (Lib (OtherException n m)) \<Rightarrow>
          Inl (HTTPException HTTP_500_INTERNAL_SERVER_ERROR (''Internal error: '' @ m)))"

section \<open>\<^verbatim>\<open>app/main.py\<close>: the routes as FastAPI serves them\<close>

text \<open>
  Each route is declared with \<^verbatim>\<open>status_code=status.HTTP_200_OK\<close>: a handler that returns
  is answered with that status and the returned model as JSON. \<^verbatim>\<open>main.py\<close> registers no
  exception handler, so a raised \<^verbatim>\<open>HTTPException\<close> goes to the framework's default one,
  which answers with the exception's status code and the JSON body
  \<^verbatim>\<open>{"detail": exc.detail}\<close>, or with no body at all for a status code that allows none.
  The framework is not part of the repository; these three definitions state what it does.
\<close>

datatype 'a content = Model 'a | Json py_value | NoBody

record 'a http_response =
  http_status :: int
  content :: "'a content"

definition is_body_allowed_for_status_code :: "int \<Rightarrow> bool" where
  "is_body_allowed_for_status_code c = (\<not> (c < 200 \<or> c = 204 \<or> c = 205 \<or> c = 304))"

definition http_exception_handler :: "http_exception \<Rightarrow> 'a http_response" where
  "http_exception_handler exc =
     (case exc of HTTPException code d \<Rightarrow>
        if \<not> is_body_allowed_for_status_code code
        then \<lparr>http_status = code, content = NoBody\<rparr>
        else \<lparr>http_status = code, content = Json (PyDict [(''detail'', PyStr d)])\<rparr>)"

definition route :: "int \<Rightarrow> http_exception + 'a \<Rightarrow> 'a http_response" where
  "route code result =
     (case result of
        Inr model \<Rightarrow> \<lparr>http_status = code, content = Model model\<rparr>
      | Inl exc \<Rightarrow> http_exception_handler exc)"

definition GET_api_health :: "runtime \<Rightarrow> Settings \<Rightarrow> HealthResponse http_response" where
  "GET_api_health rt settings = route HTTP_200_OK (Inr (health_check rt settings))"

definition GET_api_users :: "runtime \<Rightarrow> Settings \<Rightarrow> User list http_response" where
  "GET_api_users rt settings = route HTTP_200_OK (get_users rt settings)"

definition GET_api_users_id :: "runtime \<Rightarrow> Settings \<Rightarrow> int \<Rightarrow> User http_response" where
  "GET_api_users_id rt settings user_id = route HTTP_200_OK (get_user rt settings user_id)"

section \<open>The shapes the specification speaks of\<close>

text \<open>
  The specification's data model: a User is \<^verbatim>\<open>{id: integer, name: string (1-100 chars),
  email: string}\<close>. \<open>valid_User_json x\<close> says that the JSON value \<open>x\<close> is such an object;
  \<open>is_json_of u x\<close> that \<open>x\<close> is an object whose three fields are those of the user \<open>u\<close>;
  \<open>violates_User_shape x\<close> that \<open>x\<close> is no object, lacks one of the three fields, or has a
  name or email that is no string, an empty name or a name of more than 100 characters.
\<close>

definition valid_User_json :: "py_value \<Rightarrow> bool" where
  "valid_User_json x =
     (case x of
        PyDict kvs \<Rightarrow>
          (case (map_of kvs ''id'', map_of kvs ''name'', map_of kvs ''email'') of
             (Some (PyInt i), Some (PyStr n), Some (PyStr e)) \<Rightarrow> 1 \<le> length n \<and> length n \<le> 100
           | _ \<Rightarrow> False)
      | _ \<Rightarrow> False)"

definition is_json_of :: "User \<Rightarrow> py_value \<Rightarrow> bool" where
  "is_json_of u x =
     (case x of
        PyDict kvs \<Rightarrow>
          map_of kvs ''id'' = Some (PyInt (id' u)) \<and>
          map_of kvs ''name'' = Some (PyStr (name u)) \<and>
          map_of kvs ''email'' = Some (PyStr (email u))
      | _ \<Rightarrow> False)"

definition is_str :: "py_value \<Rightarrow> bool" where
  "is_str v = (case v of PyStr s \<Rightarrow> True | _ \<Rightarrow> False)"

definition violates_User_shape :: "py_value \<Rightarrow> bool" where
  "violates_User_shape x =
     (case x of
        PyDict kvs \<Rightarrow>
          (case map_of kvs ''id'' of None \<Rightarrow> True | Some i \<Rightarrow> False) \<or>
          (case map_of kvs ''name'' of
             None \<Rightarrow> True
           | Some (PyStr n) \<Rightarrow> length n = 0 \<or> 100 < length n
           | Some other \<Rightarrow> True) \<or>
          (case map_of kvs ''email'' of None \<Rightarrow> True | Some e \<Rightarrow> \<not> is_str e)
      | _ \<Rightarrow> True)"

text \<open>
  For the body of the collection endpoint: \<open>violates_User_array_shape v\<close> says that \<open>v\<close>
  is an array with an element that violates the User shape, or is no array and is
  neither the empty object nor the empty string.
\<close>

definition violates_User_array_shape :: "py_value \<Rightarrow> bool" where
  "violates_User_array_shape v =
     (case v of
        PyList xs \<Rightarrow> (\<exists>x\<in>set xs. violates_User_shape x)
      | PyDict kvs \<Rightarrow> kvs \<noteq> []
      | PyStr s \<Rightarrow> s \<noteq> []
      | _ \<Rightarrow> True)"

section \<open>How the handlers answer each outcome of the upstream call\<close>

lemma get_user_transport:
  "client_get rt (data_service_url s @ ''/data/users/'' @ str_int uid) = Inl (RequestError n) \<Longrightarrow>
   get_user rt s uid = Inl (HTTPException 503 (''Data service unavailable: '' @ n))"
  by (simp add: get_user_def get_user_try_def and_then_def lib_def)

lemma get_user_unexpected:
  "client_get rt (data_service_url s @ ''/data/users/'' @ str_int uid) = Inl (OtherException n m) \<Longrightarrow>
   get_user rt s uid = Inl (HTTPException 500 (''Internal error: '' @ m))"
  by (simp add: get_user_def get_user_try_def and_then_def lib_def)

lemma get_user_status_error:
  "client_get rt (data_service_url s @ ''/data/users/'' @ str_int uid) = Inr r \<Longrightarrow>
   \<not> is_success r \<Longrightarrow>
   get_user rt s uid =
     (if status_code r = 404
      then Inl (HTTPException 404 (''User with ID '' @ str_int uid @ '' not found''))
      else Inl (HTTPException (status_code r) (''Data service error: '' @ text' r)))"
  by (simp add: get_user_def get_user_try_def and_then_def lib_def raise_for_status_def)

lemma User_unpack_raises:
  "User_unpack rt v = Inl e \<Longrightarrow> \<exists>n m. e = OtherException n m"
  by (auto simp: User_unpack_def User_init_def split: py_value.splits option.splits prod.splits)

lemma get_user_success:
  "client_get rt (data_service_url s @ ''/data/users/'' @ str_int uid) = Inr r \<Longrightarrow>
   is_success r \<Longrightarrow>
   get_user rt s uid =
     (case json r of
        None \<Rightarrow>
          Inl (HTTPException 500
                 (''Internal error: '' @ error_text rt ''JSONDecodeError'' (PyStr (text' r))))
      | Some v \<Rightarrow>
          (case User_unpack rt v of
             Inr u \<Rightarrow> Inr u
           | Inl (RequestError n) \<Rightarrow>
               Inl (HTTPException 503 (''Data service unavailable: '' @ n))
           | Inl (OtherException n m) \<Rightarrow>
               Inl (HTTPException 500 (''Internal error: '' @ m))))"
  by (simp add: get_user_def get_user_try_def and_then_def lib_def raise_for_status_def
      response_json_def split: option.splits sum.splits py_exception.splits)

lemma get_user_success_cases:
  assumes "client_get rt (data_service_url s @ ''/data/users/'' @ str_int uid) = Inr r"
    and "is_success r"
  shows "(\<exists>u. get_user rt s uid = Inr u) \<or> (\<exists>d. get_user rt s uid = Inl (HTTPException 500 d))"
  using get_user_success[OF assms] User_unpack_raises[of rt]
  by (auto split: option.splits sum.splits py_exception.splits)

lemma get_users_transport:
  "client_get rt (data_service_url s @ ''/data/users'') = Inl (RequestError n) \<Longrightarrow>
   get_users rt s = Inl (HTTPException 503 (''Data service unavailable: '' @ n))"
  by (simp add: get_users_def get_users_try_def and_then_def lib_def)

lemma get_users_unexpected:
  "client_get rt (data_service_url s @ ''/data/users'') = Inl (OtherException n m) \<Longrightarrow>
   get_users rt s = Inl (HTTPException 500 (''Internal error: '' @ m))"
  by (simp add: get_users_def get_users_try_def and_then_def lib_def)

lemma get_users_status_error:
  "client_get rt (data_service_url s @ ''/data/users'') = Inr r \<Longrightarrow> \<not> is_success r \<Longrightarrow>
   get_users rt s = Inl (HTTPException (status_code r) (''Data service error: '' @ text' r))"
  by (simp add: get_users_def get_users_try_def and_then_def lib_def raise_for_status_def)

lemma User_list_raises:
  "User_list rt xs = Inl e \<Longrightarrow> \<exists>n m. e = OtherException n m"
proof (induction xs)
  case Nil
  then show ?case by simp
next
  case (Cons x xs)
  then show ?case
    by (auto split: sum.splits dest: User_unpack_raises)
qed

lemma py_iter_raises:
  "py_iter rt v = Inl e \<Longrightarrow> \<exists>n m. e = OtherException n m"
  by (auto simp: py_iter_def split: py_value.splits)

lemma get_users_success:
  "client_get rt (data_service_url s @ ''/data/users'') = Inr r \<Longrightarrow> is_success r \<Longrightarrow>
   get_users rt s =
     (case json r of
        None \<Rightarrow>
          Inl (HTTPException 500
                 (''Internal error: '' @ error_text rt ''JSONDecodeError'' (PyStr (text' r))))
      | Some v \<Rightarrow>
          (case py_iter rt v of
             Inl (RequestError n) \<Rightarrow>
               Inl (HTTPException 503 (''Data service unavailable: '' @ n))
           | Inl (OtherException n m) \<Rightarrow>
               Inl (HTTPException 500 (''Internal error: '' @ m))
           | Inr items \<Rightarrow>
               (case User_list rt items of
                  Inr us \<Rightarrow> Inr us
                | Inl (RequestError n) \<Rightarrow>
                    Inl (HTTPException 503 (''Data service unavailable: '' @ n))
                | Inl (OtherException n m) \<Rightarrow>
                    Inl (HTTPException 500 (''Internal error: '' @ m)))))"
  by (simp add: get_users_def get_users_try_def and_then_def lib_def raise_for_status_def
      response_json_def split: option.splits sum.splits py_exception.splits)

lemma get_users_success_cases:
  assumes "client_get rt (data_service_url s @ ''/data/users'') = Inr r"
    and "is_success r"
  shows "(\<exists>us. get_users rt s = Inr us) \<or> (\<exists>d. get_users rt s = Inl (HTTPException 500 d))"
  using get_users_success[OF assms] User_list_raises[of rt] py_iter_raises[of rt]
  by (auto split: option.splits sum.splits py_exception.splits)

lemma route_Inr: "route code (Inr v) = \<lparr>http_status = code, content = Model v\<rparr>"
  by (simp add: route_def)

lemma route_HTTPException:
  "route code (Inl (HTTPException c d)) =
     (if is_body_allowed_for_status_code c
      then \<lparr>http_status = c, content = Json (PyDict [(''detail'', PyStr d)])\<rparr>
      else \<lparr>http_status = c, content = NoBody\<rparr>)"
  by (simp add: route_def http_exception_handler_def)

lemma http_status_route_Inl: "http_status (route code (Inl (HTTPException c d))) = c"
  by (simp add: route_HTTPException)

lemma str_int_500: "str_int 500 = ''500''"
  by (simp add: str_int_def str_nat.simps digit_char_def)

subsection \<open>Validation of the decoded body\<close>

lemma User_unpack_valid:
  "valid_User_json x \<Longrightarrow> \<exists>u. User_unpack rt x = Inr u \<and> is_json_of u x"
  by (auto simp: valid_User_json_def User_unpack_def User_init_def required_def validate_int_def
      validate_str_def is_json_of_def split: py_value.splits option.splits)

lemma User_list_valid:
  "\<forall>x\<in>set xs. valid_User_json x \<Longrightarrow>
   \<exists>us. User_list rt xs = Inr us \<and> list_all2 is_json_of us xs"
proof (induction xs)
  case Nil
  then show ?case by simp
next
  case (Cons x xs)
  then obtain us where us: "User_list rt xs = Inr us" "list_all2 is_json_of us xs"
    by auto
  from Cons.prems obtain u where u: "User_unpack rt x = Inr u" "is_json_of u x"
    using User_unpack_valid[of x rt] by auto
  from us u show ?case by simp
qed

lemma User_unpack_violates:
  "violates_User_shape v \<Longrightarrow> \<exists>n m. User_unpack rt v = Inl (OtherException n m)"
  by (auto simp: violates_User_shape_def User_unpack_def User_init_def required_def
      validate_str_def is_str_def split: py_value.splits option.splits)

lemma User_unpack_name:
  "User_unpack rt v = Inr u \<Longrightarrow> 1 \<le> length (name u) \<and> length (name u) \<le> 100"
  by (auto simp: User_unpack_def User_init_def required_def validate_str_def Suc_le_eq
      split: py_value.splits option.splits if_splits)

lemma User_list_violates:
  "\<exists>x\<in>set xs. violates_User_shape x \<Longrightarrow> \<exists>n m. User_list rt xs = Inl (OtherException n m)"
proof (induction xs)
  case Nil
  then show ?case by simp
next
  case (Cons x xs)
  show ?case
  proof (cases "User_unpack rt x")
    case (Inl e)
    with User_unpack_raises[OF Inl] show ?thesis by auto
  next
    case (Inr u)
    with User_unpack_violates[of x rt] have "\<not> violates_User_shape x" by auto
    with Cons.prems have "\<exists>x\<in>set xs. violates_User_shape x" by simp
    from Cons.IH[OF this] Inr show ?thesis by auto
  qed
qed

lemma User_list_names:
  "User_list rt xs = Inr us \<Longrightarrow> \<forall>u\<in>set us. 1 \<le> length (name u) \<and> length (name u) \<le> 100"
proof (induction xs arbitrary: us)
  case Nil
  then show ?case by simp
next
  case (Cons x xs)
  from Cons.prems obtain u rest where parts:
    "User_unpack rt x = Inr u" "User_list rt xs = Inr rest" "us = u # rest"
    by (auto split: sum.splits)
  from User_unpack_name[OF parts(1)] Cons.IH[OF parts(2)] parts(3)
  show ?case by simp
qed

lemma User_list_of_str:
  "\<exists>n m. User_list rt (PyStr s # rest) = Inl (OtherException n m)"
  by (simp add: User_unpack_def)

lemma iterated_body_violates:
  assumes "violates_User_array_shape v"
  shows "(\<exists>n m. py_iter rt v = Inl (OtherException n m)) \<or>
         (\<exists>items n m. py_iter rt v = Inr items \<and> User_list rt items = Inl (OtherException n m))"
proof (cases v)
  case (PyList xs)
  with assms have "\<exists>x\<in>set xs. violates_User_shape x"
    by (simp add: violates_User_array_shape_def)
  from User_list_violates[OF this, of rt] PyList show ?thesis
    by (simp add: py_iter_def)
next
  case (PyDict kvs)
  with assms obtain kv rest where "kvs = kv # rest"
    by (cases kvs) (auto simp: violates_User_array_shape_def)
  with PyDict User_list_of_str[of rt "fst kv"] show ?thesis
    by (simp add: py_iter_def)
next
  case (PyStr s)
  with assms obtain c rest where "s = c # rest"
    by (cases s) (auto simp: violates_User_array_shape_def)
  with PyStr User_list_of_str[of rt "[c]"] show ?thesis
    by (simp add: py_iter_def)
qed (simp_all add: py_iter_def)

lemma internal_error_response:
  "route code (Inl (HTTPException 500 d)) =
     \<lparr>http_status = 500, content = Json (PyDict [(''detail'', PyStr d)])\<rparr>"
  by (simp add: route_HTTPException is_body_allowed_for_status_code_def)

lemma content_route_Model:
  "content (route code result) = Model v \<Longrightarrow> result = Inr v"
  by (cases result)
    (auto simp: route_def http_exception_handler_def split: http_exception.splits if_splits)

text \<open>The equations that evaluate a handler on a concrete upstream outcome.\<close>

lemmas eval_defs =
  GET_api_users_def GET_api_users_id_def GET_api_health_def get_users_def get_user_def
  get_users_try_def get_user_try_def and_then_def lib_def raise_for_status_def is_success_def
  response_json_def py_iter_def User_unpack_def User_init_def required_def validate_int_def
  validate_str_def fixed_upstream_def route_def http_exception_handler_def
  is_body_allowed_for_status_code_def default_settings_def
  str_int_def str_nat.simps digit_char_def

section \<open>The health check\<close>

text \<open>
  Claim C1. Whatever the upstream health call does (it answers 200, it answers any other
  status, it fails at the transport level, it raises any other exception), \<^verbatim>\<open>GET /api/health\<close>
  is answered with HTTP 200 and a body whose \<^verbatim>\<open>status\<close> field is \<^verbatim>\<open>"healthy"\<close>: the handler
  never raises.
\<close>

theorem health_check_always_200:
  "GET_api_health rt settings =
     \<lparr>http_status = 200, content = Model (health_check rt settings)\<rparr> \<and>
   status (health_check rt settings) = ''healthy''"
  by (simp add: GET_api_health_def route_Inr health_check_def Let_def)

theorem health_check_always_200_witness:
  "http_status (GET_api_health (fixed_upstream (Inr \<lparr>status_code = 200, text' = ''UP'', json = None\<rparr>)) default_settings) = 200 \<and>
   http_status (GET_api_health (fixed_upstream (Inr \<lparr>status_code = 500, text' = ''DOWN'', json = None\<rparr>)) default_settings) = 200 \<and>
   http_status (GET_api_health (fixed_upstream (Inl (RequestError ''ConnectError''))) default_settings) = 200 \<and>
   http_status (GET_api_health (fixed_upstream (Inl (OtherException ''Exception'' ''Connection refused''))) default_settings) = 200"
  using health_check_always_200 [of "fixed_upstream (Inr \<lparr>status_code = 200, text' = ''UP'', json = None\<rparr>)" default_settings]
    health_check_always_200 [of "fixed_upstream (Inr \<lparr>status_code = 500, text' = ''DOWN'', json = None\<rparr>)" default_settings]
    health_check_always_200 [of "fixed_upstream (Inl (RequestError ''ConnectError''))" default_settings]
    health_check_always_200 [of "fixed_upstream (Inl (OtherException ''Exception'' ''Connection refused''))" default_settings]
  by simp

text \<open>
  Claim C8. \<^verbatim>\<open>data_service_status\<close> is \<^verbatim>\<open>"connected"\<close> when the upstream answers 200,
  \<^verbatim>\<open>"unhealthy (status: <code>)"\<close> for any other status, \<^verbatim>\<open>"unreachable (<kind>)"\<close> on a
  transport-level failure and \<^verbatim>\<open>"error (<kind>)"\<close> on any other exception. The four cases
  are exhaustive, and exclusive: each form of the string arises from its own case only.
\<close>

theorem data_service_status_cases:
  fixes rt settings
  defines "outcome \<equiv> client_get rt (data_service_url settings @ ''/actuator/health'')"
    and "dss \<equiv> data_service_status (health_check rt settings)"
  shows "(\<forall>r. outcome = Inr r \<and> status_code r = 200 \<longrightarrow> dss = Some ''connected'') \<and>
    (\<forall>r. outcome = Inr r \<and> status_code r \<noteq> 200 \<longrightarrow>
       dss = Some (''unhealthy (status: '' @ str_int (status_code r) @ '')'')) \<and>
    (\<forall>n. outcome = Inl (RequestError n) \<longrightarrow> dss = Some (''unreachable ('' @ n @ '')'')) \<and>
    (\<forall>n m. outcome = Inl (OtherException n m) \<longrightarrow> dss = Some (''error ('' @ n @ '')'')) \<and>
    ((dss = Some ''connected'') = (\<exists>r. outcome = Inr r \<and> status_code r = 200)) \<and>
    ((\<exists>t. dss = Some (''unhealthy (status: '' @ t)) = (\<exists>r. outcome = Inr r \<and> status_code r \<noteq> 200)) \<and>
    ((\<exists>t. dss = Some (''unreachable ('' @ t)) = (\<exists>n. outcome = Inl (RequestError n))) \<and>
    ((\<exists>t. dss = Some (''error ('' @ t)) = (\<exists>n m. outcome = Inl (OtherException n m)))"
proof (cases outcome)
  case (Inl e)
  then show ?thesis
    unfolding dss_def using outcome_def
    by (cases e) (auto simp: health_check_def Let_def)
next
  case (Inr r)
  then show ?thesis
    unfolding dss_def using outcome_def
    by (auto simp: health_check_def Let_def)
qed

theorem data_service_status_cases_witness:
  "data_service_status (health_check (fixed_upstream (Inr \<lparr>status_code = 200, text' = ''UP'', json = None\<rparr>)) default_settings) = Some ''connected'' \<and>
   data_service_status (health_check (fixed_upstream (Inr \<lparr>status_code = 500, text' = ''DOWN'', json = None\<rparr>)) default_settings) = Some ''unhealthy (status: 500)'' \<and>
   data_service_status (health_check (fixed_upstream (Inl (RequestError ''ConnectTimeout''))) default_settings) = Some ''unreachable (ConnectTimeout)'' \<and>
   data_service_status (health_check (fixed_upstream (Inl (OtherException ''Exception'' ''Connection refused''))) default_settings) = Some ''error (Exception)''"
  using data_service_status_cases [of "fixed_upstream (Inr \<lparr>status_code = 200, text' = ''UP'', json = None\<rparr>)" default_settings]
    data_service_status_cases [of "fixed_upstream (Inr \<lparr>status_code = 500, text' = ''DOWN'', json = None\<rparr>)" default_settings]
    data_service_status_cases [of "fixed_upstream (Inl (RequestError ''ConnectTimeout''))" default_settings]
    data_service_status_cases [of "fixed_upstream (Inl (OtherException ''Exception'' ''Connection refused''))" default_settings]
  by (simp add: fixed_upstream_def str_int_500)

section \<open>Getting one user\<close>

text \<open>
  Claim C2. For every integer id, \<^verbatim>\<open>GET /api/users/{id}\<close> is answered with HTTP 404 and the
  detail \<^verbatim>\<open>"User with ID {id} not found"\<close> if and only if the upstream GET to
  \<^verbatim>\<open>/data/users/{id}\<close> answers with status 404. The same holds of the status alone, and of
  the exception the handler raises.
\<close>

theorem get_user_404_iff:
  fixes rt settings user_id
  defines "outcome \<equiv> client_get rt (data_service_url settings @ ''/data/users/'' @ str_int user_id)"
  shows "(GET_api_users_id rt settings user_id =
            \<lparr>http_status = 404,
             content = Json (PyDict [(''detail'', PyStr (''User with ID '' @ str_int user_id @ '' not found''))])\<rparr>)
         = (\<exists>r. outcome = Inr r \<and> status_code r = 404) \<and>
        (http_status (GET_api_users_id rt settings user_id) = 404)
         = (\<exists>r. outcome = Inr r \<and> status_code r = 404) \<and>
        (get_user rt settings user_id =
            Inl (HTTPException 404 (''User with ID '' @ str_int user_id @ '' not found'')))
         = (\<exists>r. outcome = Inr r \<and> status_code r = 404)"
proof (cases outcome)
  case (Inl e)
  then show ?thesis
  proof (cases e)
    case (RequestError n)
    with Inl have "get_user rt settings user_id = Inl (HTTPException 503 (''Data service unavailable: '' @ n))"
      unfolding outcome_def by (rule_tac get_user_transport) simp
    with Inl show ?thesis
      by (simp add: GET_api_users_id_def route_HTTPException is_body_allowed_for_status_code_def)
  next
    case (OtherException n m)
    with Inl have "get_user rt settings user_id = Inl (HTTPException 500 (''Internal error: '' @ m))"
      unfolding outcome_def by (rule_tac get_user_unexpected) simp
    with Inl show ?thesis
      by (simp add: GET_api_users_id_def route_HTTPException is_body_allowed_for_status_code_def)
  qed
next
  case (Inr r)
  show ?thesis
  proof (cases "is_success r")
    case True
    then have ne: "status_code r \<noteq> 404" by (auto simp: is_success_def)
    from get_user_success_cases[OF Inr[unfolded outcome_def] True]
    show ?thesis using Inr ne
      by (auto simp: GET_api_users_id_def route_HTTPException route_Inr is_body_allowed_for_status_code_def)
  next
    case False
    from get_user_status_error[OF Inr[unfolded outcome_def] False]
    show ?thesis using Inr
      by (auto simp: GET_api_users_id_def route_HTTPException is_body_allowed_for_status_code_def)
  qed
qed


text \<open>
  Claim C6. When the upstream answers \<^verbatim>\<open>GET /data/users/{id}\<close> with a status outside 2xx
  other than 404 (500, say), the handler raises an \<^verbatim>\<open>HTTPException\<close> with exactly that
  status and the detail \<^verbatim>\<open>"Data service error: "\<close> followed by the upstream's body text; the
  response has that status, and that detail in its body wherever the status allows a
  body, which every status from 400 on does.
\<close>

theorem get_user_passes_upstream_error_through:
  assumes "client_get rt (data_service_url settings @ ''/data/users/'' @ str_int user_id) = Inr r"
    and "\<not> is_success r"
    and "status_code r \<noteq> 404"
  shows "get_user rt settings user_id =
           Inl (HTTPException (status_code r) (''Data service error: '' @ text' r)) \<and>
         http_status (GET_api_users_id rt settings user_id) = status_code r \<and>
         (is_body_allowed_for_status_code (status_code r) \<longrightarrow>
            content (GET_api_users_id rt settings user_id) =
              Json (PyDict [(''detail'', PyStr (''Data service error: '' @ text' r))])) \<and>
         (400 \<le> status_code r \<longrightarrow>
            content (GET_api_users_id rt settings user_id) =
              Json (PyDict [(''detail'', PyStr (''Data service error: '' @ text' r))]))"
proof -
  have raised: "get_user rt settings user_id =
      Inl (HTTPException (status_code r) (''Data service error: '' @ text' r))"
    using get_user_status_error[OF assms(1,2)] assms(3) by simp
  then show ?thesis
    by (simp add: GET_api_users_id_def route_HTTPException is_body_allowed_for_status_code_def)
qed

theorem get_user_passes_upstream_error_through_witness:
  "GET_api_users_id
     (fixed_upstream (Inr \<lparr>status_code = 500, text' = ''Internal Server Error'', json = None\<rparr>))
     default_settings 1 =
   \<lparr>http_status = 500,
    content = Json (PyDict [(''detail'', PyStr ''Data service error: Internal Server Error'')])\<rparr>"
proof -
  let ?r = "\<lparr>status_code = 500, text' = ''Internal Server Error'', json = None\<rparr>"
  have a: "client_get (fixed_upstream (Inr ?r))
      (data_service_url default_settings @ ''/data/users/'' @ str_int 1) = Inr ?r"
    by (simp add: fixed_upstream_def)
  have b: "\<not> is_success ?r" by (simp add: is_success_def)
  have c: "status_code ?r \<noteq> 404" by simp
  have d: "is_body_allowed_for_status_code (status_code ?r)"
    by (simp add: is_body_allowed_for_status_code_def)
  from get_user_passes_upstream_error_through[OF a b c] d
  have "http_status (GET_api_users_id (fixed_upstream (Inr ?r)) default_settings 1) = 500"
    and "content (GET_api_users_id (fixed_upstream (Inr ?r)) default_settings 1) =
      Json (PyDict [(''detail'', PyStr ''Data service error: Internal Server Error'')])"
    by simp_all
  then show ?thesis
    by (cases "GET_api_users_id (fixed_upstream (Inr ?r)) default_settings 1") simp
qed

section \<open>Listing the users\<close>

text \<open>
  Claim C4. When the upstream answers \<^verbatim>\<open>GET /data/users\<close> with a 2xx status and a JSON array
  of valid User objects, \<^verbatim>\<open>get_users\<close> returns as many users as the array has elements, the
  user at each position built from the element at that position (the empty array gives
  the empty list); the response is HTTP 200 with that list.
\<close>

theorem get_users_preserves_order_and_count:
  assumes "client_get rt (data_service_url settings @ ''/data/users'') = Inr r"
    and "is_success r"
    and "json r = Some (PyList xs)"
    and "\<forall>x\<in>set xs. valid_User_json x"
  shows "\<exists>us. get_users rt settings = Inr us \<and>
              GET_api_users rt settings = \<lparr>http_status = 200, content = Model us\<rparr> \<and>
              length us = length xs \<and>
              (\<forall>i<length xs. is_json_of (us ! i) (xs ! i))"
proof -
  from User_list_valid[OF assms(4), of rt]
  obtain us where us: "User_list rt xs = Inr us" "list_all2 is_json_of us xs"
    by blast
  have "get_users rt settings = Inr us"
    using get_users_success[OF assms(1,2)] assms(3) us(1) by (simp add: py_iter_def)
  moreover from us(2) have "length us = length xs"
    by (rule list_all2_lengthD)
  moreover from us(2) have "\<forall>i<length xs. is_json_of (us ! i) (xs ! i)"
    by (simp add: list_all2_conv_all_nth)
  ultimately show ?thesis
    by (simp add: GET_api_users_def route_Inr)
qed

theorem get_users_preserves_order_and_count_witness:
  "GET_api_users
     (fixed_upstream (Inr \<lparr>status_code = 200, text' = ''[...]'',
        json = Some (PyList
          [PyDict [(''id'', PyInt 1), (''name'', PyStr ''John Doe''), (''email'', PyStr ''john@example.com'')],
           PyDict [(''id'', PyInt 2), (''name'', PyStr ''Jane Smith''), (''email'', PyStr ''jane@example.com'')]])\<rparr>))
     default_settings =
   \<lparr>http_status = 200,
    content = Model [\<lparr>id' = 1, name = ''John Doe'', email = ''john@example.com''\<rparr>,
                     \<lparr>id' = 2, name = ''Jane Smith'', email = ''jane@example.com''\<rparr>]\<rparr> \<and>
   GET_api_users
     (fixed_upstream (Inr \<lparr>status_code = 200, text' = ''[]'', json = Some (PyList [])\<rparr>))
     default_settings = \<lparr>http_status = 200, content = Model []\<rparr>"
proof -
  let ?xs = "[PyDict [(''id'', PyInt 1), (''name'', PyStr ''John Doe''), (''email'', PyStr ''john@example.com'')],
           PyDict [(''id'', PyInt 2), (''name'', PyStr ''Jane Smith''), (''email'', PyStr ''jane@example.com'')]]"
  let ?r = "\<lparr>status_code = 200, text' = ''[...]'', json = Some (PyList ?xs)\<rparr>"
  let ?e = "\<lparr>status_code = 200, text' = ''[]'', json = Some (PyList [])\<rparr>"
  have a: "client_get (fixed_upstream (Inr ?r)) (data_service_url default_settings @ ''/data/users'') = Inr ?r"
    by (simp add: fixed_upstream_def)
  have b: "is_success ?r" by (simp add: is_success_def)
  have c: "json ?r = Some (PyList ?xs)" by simp
  have d: "\<forall>x\<in>set ?xs. valid_User_json x" by (simp add: valid_User_json_def)
  have a': "client_get (fixed_upstream (Inr ?e)) (data_service_url default_settings @ ''/data/users'') = Inr ?e"
    by (simp add: fixed_upstream_def)
  have b': "is_success ?e" by (simp add: is_success_def)
  have c': "json ?e = Some (PyList [])" by simp
  have d': "\<forall>x\<in>set []. valid_User_json x" by simp
  from get_users_preserves_order_and_count[OF a b c d]
    get_users_preserves_order_and_count[OF a' b' c' d']
  show ?thesis
    by (simp add: eval_defs)
qed

text \<open>
  Claim C10. The translation of an upstream 404 into "not found" is \<^verbatim>\<open>get_user\<close>'s alone:
  when the upstream answers \<^verbatim>\<open>GET /data/users\<close> with 404, \<^verbatim>\<open>get_users\<close> passes the 404
  through with the detail \<^verbatim>\<open>"Data service error: "\<close> followed by the upstream's body text,
  which is no "User with ID ... not found" message.
\<close>

theorem get_users_passes_404_through:
  assumes "client_get rt (data_service_url settings @ ''/data/users'') = Inr r"
    and "status_code r = 404"
  shows "get_users rt settings = Inl (HTTPException 404 (''Data service error: '' @ text' r)) \<and>
         GET_api_users rt settings =
           \<lparr>http_status = 404,
            content = Json (PyDict [(''detail'', PyStr (''Data service error: '' @ text' r))])\<rparr> \<and>
         (\<forall>user_id. ''Data service error: '' @ text' r \<noteq> ''User with ID '' @ str_int user_id @ '' not found'')"
proof -
  have "\<not> is_success r" using assms(2) by (simp add: is_success_def)
  from get_users_status_error[OF assms(1) this] assms(2)
  show ?thesis
    by (simp add: GET_api_users_def route_HTTPException is_body_allowed_for_status_code_def)
qed

theorem get_users_passes_404_through_witness:
  "GET_api_users (fixed_upstream (Inr \<lparr>status_code = 404, text' = ''Not Found'', json = None\<rparr>))
     default_settings =
   \<lparr>http_status = 404,
    content = Json (PyDict [(''detail'', PyStr ''Data service error: Not Found'')])\<rparr>"
proof -
  let ?r = "\<lparr>status_code = 404, text' = ''Not Found'', json = None\<rparr>"
  have a: "client_get (fixed_upstream (Inr ?r))
      (data_service_url default_settings @ ''/data/users'') = Inr ?r"
    by (simp add: fixed_upstream_def)
  have b: "status_code ?r = 404" by simp
  from get_users_passes_404_through[OF a b] show ?thesis by simp
qed

text \<open>
  Claim C7, as stated, fails: \<^verbatim>\<open>GET /api/users\<close> answers 404 when the upstream does.
\<close>

theorem get_users_404_counterexample:
  "http_status (GET_api_users
     (fixed_upstream (Inr \<lparr>status_code = 404, text' = ''Not Found'', json = None\<rparr>))
     default_settings) = 404 \<and>
   http_status (GET_api_users
     (fixed_upstream (Inr \<lparr>status_code = 404, text' = ''Not Found'', json = None\<rparr>))
     default_settings) \<notin> {200, 503, 500}"
  by (simp add: GET_api_users_def get_users_def get_users_try_def and_then_def lib_def
      raise_for_status_def is_success_def fixed_upstream_def http_status_route_Inl)

text \<open>
  Claim C7, amended. Every response of \<^verbatim>\<open>GET /api/users\<close> is HTTP 200 with the list of
  users the handler returned, or 503 after a transport-level failure, or 500 with an
  "Internal error" detail, or carries the status of an upstream response outside 2xx,
  passed through with its body text in the detail.
\<close>

theorem get_users_statuses:
  fixes rt settings
  defines "outcome \<equiv> client_get rt (data_service_url settings @ ''/data/users'')"
  shows "(\<exists>us. get_users rt settings = Inr us \<and>
            GET_api_users rt settings = \<lparr>http_status = 200, content = Model us\<rparr>) \<or>
         (\<exists>n. outcome = Inl (RequestError n) \<and>
            GET_api_users rt settings =
              \<lparr>http_status = 503,
               content = Json (PyDict [(''detail'', PyStr (''Data service unavailable: '' @ n))])\<rparr>) \<or>
         (\<exists>m. GET_api_users rt settings =
              \<lparr>http_status = 500,
               content = Json (PyDict [(''detail'', PyStr (''Internal error: '' @ m))])\<rparr>) \<or>
         (\<exists>r. outcome = Inr r \<and> \<not> is_success r \<and>
            get_users rt settings =
              Inl (HTTPException (status_code r) (''Data service error: '' @ text' r)) \<and>
            http_status (GET_api_users rt settings) = status_code r)"
proof (cases outcome)
  case (Inl e)
  then show ?thesis
    using get_users_transport[of rt settings] get_users_unexpected[of rt settings]
    unfolding outcome_def
    by (cases e)
      (auto simp: GET_api_users_def route_HTTPException is_body_allowed_for_status_code_def)
next
  case (Inr r)
  show ?thesis
  proof (cases "is_success r")
    case True
    from get_users_success_cases[OF Inr[unfolded outcome_def] True]
    have "(\<exists>us. get_users rt settings = Inr us) \<or>
        (\<exists>d. get_users rt settings = Inl (HTTPException 500 d))" .
    moreover have "\<And>d. get_users rt settings = Inl (HTTPException 500 d) \<Longrightarrow>
        \<exists>m. d = ''Internal error: '' @ m"
      using get_users_success[OF Inr[unfolded outcome_def] True]
      by (auto split: option.splits sum.splits py_exception.splits)
    ultimately show ?thesis
      by (auto simp: GET_api_users_def route_HTTPException route_Inr
          is_body_allowed_for_status_code_def)
  next
    case False
    from get_users_status_error[OF Inr[unfolded outcome_def] False] Inr False show ?thesis
      by (auto simp: GET_api_users_def http_status_route_Inl)
  qed
qed

theorem get_users_statuses_witness:
  "GET_api_users (fixed_upstream (Inr \<lparr>status_code = 200, text' = ''[]'', json = Some (PyList [])\<rparr>))
     default_settings = \<lparr>http_status = 200, content = Model []\<rparr>"
  using get_users_statuses [of "fixed_upstream (Inr \<lparr>status_code = 200, text' = ''[]'', json = Some (PyList [])\<rparr>)" default_settings]
  by (simp add: eval_defs)

section \<open>Both user operations\<close>

text \<open>
  Claim C5, as stated, fails: both operations answer 503 when the upstream itself answers
  with status 503, which is a received response and no transport-level failure.
\<close>

theorem upstream_503_counterexample:
  "http_status (GET_api_users
     (fixed_upstream (Inr \<lparr>status_code = 503, text' = ''Service Unavailable'', json = None\<rparr>))
     default_settings) = 503 \<and>
   http_status (GET_api_users_id
     (fixed_upstream (Inr \<lparr>status_code = 503, text' = ''Service Unavailable'', json = None\<rparr>))
     default_settings 1) = 503 \<and>
   client_get (fixed_upstream (Inr \<lparr>status_code = 503, text' = ''Service Unavailable'', json = None\<rparr>))
     ''http://data-service:8080/data/users'' =
     Inr \<lparr>status_code = 503, text' = ''Service Unavailable'', json = None\<rparr> \<and>
   client_get (fixed_upstream (Inr \<lparr>status_code = 503, text' = ''Service Unavailable'', json = None\<rparr>))
     ''http://data-service:8080/data/users/1'' =
     Inr \<lparr>status_code = 503, text' = ''Service Unavailable'', json = None\<rparr>"
  by (simp add: GET_api_users_def GET_api_users_id_def get_users_def get_user_def get_users_try_def
      get_user_try_def and_then_def lib_def raise_for_status_def is_success_def fixed_upstream_def
      http_status_route_Inl)

text \<open>
  Claim C5, amended. \<^verbatim>\<open>GET /api/users\<close> and \<^verbatim>\<open>GET /api/users/{id}\<close> answer 503 if and only
  if the upstream call raised an \<^verbatim>\<open>httpx.RequestError\<close> (a transport-level failure, every
  timeout among them) or the upstream answered with status 503. Every transport-level
  failure, whatever its kind, gets the same answer: 503 with the detail
  \<^verbatim>\<open>"Data service unavailable: <kind>"\<close>.
\<close>

theorem service_unavailable_iff:
  fixes rt settings user_id
  defines "many \<equiv> client_get rt (data_service_url settings @ ''/data/users'')"
    and "one \<equiv> client_get rt (data_service_url settings @ ''/data/users/'' @ str_int user_id)"
  shows "((http_status (GET_api_users rt settings) = 503) =
            ((\<exists>n. many = Inl (RequestError n)) \<or> (\<exists>r. many = Inr r \<and> status_code r = 503))) \<and>
         ((http_status (GET_api_users_id rt settings user_id) = 503) =
            ((\<exists>n. one = Inl (RequestError n)) \<or> (\<exists>r. one = Inr r \<and> status_code r = 503))) \<and>
         (\<forall>n. many = Inl (RequestError n) \<longrightarrow>
            GET_api_users rt settings =
              \<lparr>http_status = 503,
               content = Json (PyDict [(''detail'', PyStr (''Data service unavailable: '' @ n))])\<rparr>) \<and>
         (\<forall>n. one = Inl (RequestError n) \<longrightarrow>
            GET_api_users_id rt settings user_id =
              \<lparr>http_status = 503,
               content = Json (PyDict [(''detail'', PyStr (''Data service unavailable: '' @ n))])\<rparr>)"
proof -
  have users: "(http_status (GET_api_users rt settings) = 503) =
      ((\<exists>n. many = Inl (RequestError n)) \<or> (\<exists>r. many = Inr r \<and> status_code r = 503))"
  proof (cases many)
    case (Inl e)
    then show ?thesis
      using get_users_transport[of rt settings] get_users_unexpected[of rt settings]
      unfolding many_def
      by (cases e) (auto simp: GET_api_users_def http_status_route_Inl)
  next
    case (Inr r)
    show ?thesis
    proof (cases "is_success r")
      case True
      then have "status_code r \<noteq> 503" by (auto simp: is_success_def)
      with get_users_success_cases[OF Inr[unfolded many_def] True] Inr show ?thesis
        by (auto simp: GET_api_users_def http_status_route_Inl route_Inr)
    next
      case False
      from get_users_status_error[OF Inr[unfolded many_def] False] Inr show ?thesis
        by (auto simp: GET_api_users_def http_status_route_Inl)
    qed
  qed
  have user: "(http_status (GET_api_users_id rt settings user_id) = 503) =
      ((\<exists>n. one = Inl (RequestError n)) \<or> (\<exists>r. one = Inr r \<and> status_code r = 503))"
  proof (cases one)
    case (Inl e)
    then show ?thesis
      using get_user_transport[of rt settings user_id] get_user_unexpected[of rt settings user_id]
      unfolding one_def
      by (cases e) (auto simp: GET_api_users_id_def http_status_route_Inl)
  next
    case (Inr r)
    show ?thesis
    proof (cases "is_success r")
      case True
      then have "status_code r \<noteq> 503" by (auto simp: is_success_def)
      with get_user_success_cases[OF Inr[unfolded one_def] True] Inr show ?thesis
        by (auto simp: GET_api_users_id_def http_status_route_Inl route_Inr)
    next
      case False
      from get_user_status_error[OF Inr[unfolded one_def] False] Inr show ?thesis
        by (auto simp: GET_api_users_id_def http_status_route_Inl)
    qed
  qed
  have users_body: "\<forall>n. many = Inl (RequestError n) \<longrightarrow>
      GET_api_users rt settings =
        \<lparr>http_status = 503,
         content = Json (PyDict [(''detail'', PyStr (''Data service unavailable: '' @ n))])\<rparr>"
    using get_users_transport[of rt settings] unfolding many_def
    by (auto simp: GET_api_users_def route_HTTPException is_body_allowed_for_status_code_def)
  have user_body: "\<forall>n. one = Inl (RequestError n) \<longrightarrow>
      GET_api_users_id rt settings user_id =
        \<lparr>http_status = 503,
         content = Json (PyDict [(''detail'', PyStr (''Data service unavailable: '' @ n))])\<rparr>"
    using get_user_transport[of rt settings user_id] unfolding one_def
    by (auto simp: GET_api_users_id_def route_HTTPException is_body_allowed_for_status_code_def)
  from users user users_body user_body show ?thesis by blast
qed

theorem service_unavailable_iff_witness:
  "GET_api_users (fixed_upstream (Inl (RequestError ''ConnectError''))) default_settings =
     \<lparr>http_status = 503,
      content = Json (PyDict [(''detail'', PyStr ''Data service unavailable: ConnectError'')])\<rparr> \<and>
   GET_api_users_id (fixed_upstream (Inl (RequestError ''ReadTimeout''))) default_settings 1 =
     \<lparr>http_status = 503,
      content = Json (PyDict [(''detail'', PyStr ''Data service unavailable: ReadTimeout'')])\<rparr>"
  using service_unavailable_iff [of "fixed_upstream (Inl (RequestError ''ConnectError''))" default_settings 1]
    service_unavailable_iff [of "fixed_upstream (Inl (RequestError ''ReadTimeout''))" default_settings 1]
  by (simp add: fixed_upstream_def)

text \<open>
  Claim C9, as stated, fails for the collection: the empty object is valid JSON that
  lacks id, name and email, yet a 2xx response with that body makes \<^verbatim>\<open>get_users\<close> iterate
  over no key at all and return the empty list, answered with HTTP 200.
\<close>

theorem empty_object_body_counterexample:
  "is_success \<lparr>status_code = 200, text' = ''{}'', json = Some (PyDict [])\<rparr> \<and>
   violates_User_shape (PyDict []) \<and>
   GET_api_users
     (fixed_upstream (Inr \<lparr>status_code = 200, text' = ''{}'', json = Some (PyDict [])\<rparr>))
     default_settings = \<lparr>http_status = 200, content = Model []\<rparr>"
  by (simp add: eval_defs violates_User_shape_def)

text \<open>
  Claim C9, amended. When the upstream answers 2xx and the body is not valid JSON, or
  (for \<^verbatim>\<open>get_user\<close>) the decoded body violates the User shape, or (for \<^verbatim>\<open>get_users\<close>) the
  decoded body is an array with an element that violates the User shape, or is no array
  and is neither the empty object nor the empty string, the answer is HTTP 500 with an
  "Internal error" detail and no user is returned. Every user either operation returns
  has a name of 1 to 100 characters (and an id that is an integer, by its type).
\<close>

theorem malformed_upstream_body_is_500:
  fixes rt settings user_id
  defines "one \<equiv> client_get rt (data_service_url settings @ ''/data/users/'' @ str_int user_id)"
    and "many \<equiv> client_get rt (data_service_url settings @ ''/data/users'')"
  shows "(\<forall>r. one = Inr r \<and> is_success r \<and> json r = None \<longrightarrow>
            (\<exists>m. GET_api_users_id rt settings user_id =
               \<lparr>http_status = 500,
                content = Json (PyDict [(''detail'', PyStr (''Internal error: '' @ m))])\<rparr>)) \<and>
         (\<forall>r v. one = Inr r \<and> is_success r \<and> json r = Some v \<and> violates_User_shape v \<longrightarrow>
            (\<exists>m. GET_api_users_id rt settings user_id =
               \<lparr>http_status = 500,
                content = Json (PyDict [(''detail'', PyStr (''Internal error: '' @ m))])\<rparr>)) \<and>
         (\<forall>r. many = Inr r \<and> is_success r \<and> json r = None \<longrightarrow>
            (\<exists>m. GET_api_users rt settings =
               \<lparr>http_status = 500,
                content = Json (PyDict [(''detail'', PyStr (''Internal error: '' @ m))])\<rparr>)) \<and>
         (\<forall>r v. many = Inr r \<and> is_success r \<and> json r = Some v \<and>
                violates_User_array_shape v \<longrightarrow>
            (\<exists>m. GET_api_users rt settings =
               \<lparr>http_status = 500,
                content = Json (PyDict [(''detail'', PyStr (''Internal error: '' @ m))])\<rparr>)) \<and>
         (\<forall>u. content (GET_api_users_id rt settings user_id) = Model u \<longrightarrow>
            1 \<le> length (name u) \<and> length (name u) \<le> 100) \<and>
         (\<forall>us. content (GET_api_users rt settings) = Model us \<longrightarrow>
            (\<forall>u\<in>set us. 1 \<le> length (name u) \<and> length (name u) \<le> 100))"
proof -
  have one_invalid_json: "\<exists>m. GET_api_users_id rt settings user_id =
      \<lparr>http_status = 500, content = Json (PyDict [(''detail'', PyStr (''Internal error: '' @ m))])\<rparr>"
    if "one = Inr r" "is_success r" "json r = None" for r
    using get_user_success[OF that(1)[unfolded one_def] that(2)] that(3)
    by (simp add: GET_api_users_id_def internal_error_response)
  have one_violates: "\<exists>m. GET_api_users_id rt settings user_id =
      \<lparr>http_status = 500, content = Json (PyDict [(''detail'', PyStr (''Internal error: '' @ m))])\<rparr>"
    if "one = Inr r" "is_success r" "json r = Some v" "violates_User_shape v" for r v
    using get_user_success[OF that(1)[unfolded one_def] that(2)] that(3)
      User_unpack_violates[OF that(4), of rt]
    by (auto simp: GET_api_users_id_def internal_error_response)
  have many_invalid_json: "\<exists>m. GET_api_users rt settings =
      \<lparr>http_status = 500, content = Json (PyDict [(''detail'', PyStr (''Internal error: '' @ m))])\<rparr>"
    if "many = Inr r" "is_success r" "json r = None" for r
    using get_users_success[OF that(1)[unfolded many_def] that(2)] that(3)
    by (simp add: GET_api_users_def internal_error_response)
  have many_violates: "\<exists>m. GET_api_users rt settings =
      \<lparr>http_status = 500, content = Json (PyDict [(''detail'', PyStr (''Internal error: '' @ m))])\<rparr>"
    if "many = Inr r" "is_success r" "json r = Some v" "violates_User_array_shape v" for r v
    using get_users_success[OF that(1)[unfolded many_def] that(2)] that(3)
      iterated_body_violates[OF that(4), of rt]
    by (auto simp: GET_api_users_def internal_error_response)
  have one_returned: "1 \<le> length (name u) \<and> length (name u) \<le> 100"
    if "content (GET_api_users_id rt settings user_id) = Model u" for u
  proof -
    from that have ret: "get_user rt settings user_id = Inr u"
      unfolding GET_api_users_id_def by (rule content_route_Model)
    show ?thesis
    proof (cases one)
      case (Inl e)
      with ret show ?thesis
        using get_user_transport[of rt settings user_id] get_user_unexpected[of rt settings user_id]
        unfolding one_def by (cases e) auto
    next
      case (Inr r)
      show ?thesis
      proof (cases "is_success r")
        case True
        from get_user_success[OF Inr[unfolded one_def] True] ret
        show ?thesis
          by (auto split: option.splits sum.splits py_exception.splits dest: User_unpack_name)
      next
        case False
        from get_user_status_error[OF Inr[unfolded one_def] False] ret
        show ?thesis by (simp split: if_splits)
      qed
    qed
  qed
  have many_returned: "\<forall>u\<in>set us. 1 \<le> length (name u) \<and> length (name u) \<le> 100"
    if "content (GET_api_users rt settings) = Model us" for us
  proof -
    from that have ret: "get_users rt settings = Inr us"
      unfolding GET_api_users_def by (rule content_route_Model)
    show ?thesis
    proof (cases many)
      case (Inl e)
      with ret show ?thesis
        using get_users_transport[of rt settings] get_users_unexpected[of rt settings]
        unfolding many_def by (cases e) auto
    next
      case (Inr r)
      show ?thesis
      proof (cases "is_success r")
        case True
        from get_users_success[OF Inr[unfolded many_def] True] ret
        obtain items where "User_list rt items = Inr us"
          by (auto split: option.splits sum.splits py_exception.splits)
        then show ?thesis by (rule User_list_names)
      next
        case False
        from get_users_status_error[OF Inr[unfolded many_def] False] ret
        show ?thesis by simp
      qed
    qed
  qed
  from one_invalid_json one_violates many_invalid_json many_violates one_returned many_returned
  show ?thesis by blast
qed

theorem malformed_upstream_body_is_500_witness:
  "http_status (GET_api_users_id
     (fixed_upstream (Inr \<lparr>status_code = 200, text' = ''{...}'',
        json = Some (PyDict [(''id'', PyInt 1), (''name'', PyStr []), (''email'', PyStr ''john@example.com'')])\<rparr>))
     default_settings 1) = 500 \<and>
   http_status (GET_api_users_id
     (fixed_upstream (Inr \<lparr>status_code = 200, text' = ''<html>'', json = None\<rparr>))
     default_settings 1) = 500 \<and>
   http_status (GET_api_users
     (fixed_upstream (Inr \<lparr>status_code = 200, text' = ''<html>'', json = None\<rparr>))
     default_settings) = 500 \<and>
   http_status (GET_api_users
     (fixed_upstream (Inr \<lparr>status_code = 200, text' = ''[...]'',
        json = Some (PyList
          [PyDict [(''id'', PyInt 1), (''name'', PyStr ''John Doe''), (''email'', PyStr ''john@example.com'')],
           PyDict [(''id'', PyInt 2), (''name'', PyStr (replicate 101 CHR ''x'')), (''email'', PyStr ''jane@example.com'')]])\<rparr>))
     default_settings) = 500 \<and>
   http_status (GET_api_users
     (fixed_upstream (Inr \<lparr>status_code = 200, text' = ''{...}'',
        json = Some (PyDict [(''id'', PyInt 1), (''name'', PyStr ''John Doe''), (''email'', PyStr ''john@example.com'')])\<rparr>))
     default_settings) = 500"
proof -
  let ?empty_name = "\<lparr>status_code = 200, text' = ''{...}'',
        json = Some (PyDict [(''id'', PyInt 1), (''name'', PyStr []), (''email'', PyStr ''john@example.com'')])\<rparr>"
  let ?no_json = "\<lparr>status_code = 200, text' = ''<html>'', json = None\<rparr>"
  let ?long_name = "\<lparr>status_code = 200, text' = ''[...]'',
        json = Some (PyList
          [PyDict [(''id'', PyInt 1), (''name'', PyStr ''John Doe''), (''email'', PyStr ''john@example.com'')],
           PyDict [(''id'', PyInt 2), (''name'', PyStr (replicate 101 CHR ''x'')), (''email'', PyStr ''jane@example.com'')]])\<rparr>"
  let ?object = "\<lparr>status_code = 200, text' = ''{...}'',
        json = Some (PyDict [(''id'', PyInt 1), (''name'', PyStr ''John Doe''), (''email'', PyStr ''john@example.com'')])\<rparr>"
  have shapes:
    "violates_User_shape (PyDict [(''id'', PyInt 1), (''name'', PyStr []), (''email'', PyStr ''john@example.com'')])"
    "violates_User_array_shape (PyList
          [PyDict [(''id'', PyInt 1), (''name'', PyStr ''John Doe''), (''email'', PyStr ''john@example.com'')],
           PyDict [(''id'', PyInt 2), (''name'', PyStr (replicate 101 CHR ''x'')), (''email'', PyStr ''jane@example.com'')]])"
    "violates_User_array_shape
       (PyDict [(''id'', PyInt 1), (''name'', PyStr ''John Doe''), (''email'', PyStr ''john@example.com'')])"
    by (simp_all add: violates_User_shape_def violates_User_array_shape_def is_str_def)
  have ok: "is_success ?empty_name" "is_success ?no_json" "is_success ?long_name" "is_success ?object"
    by (simp_all add: is_success_def)
  have got: "\<And>r url. client_get (fixed_upstream (Inr r)) url = Inr r"
    by (simp add: fixed_upstream_def)
  from malformed_upstream_body_is_500 [of "fixed_upstream (Inr ?empty_name)" default_settings 1]
    shapes(1) ok(1) got
  have one: "http_status (GET_api_users_id (fixed_upstream (Inr ?empty_name)) default_settings 1) = 500"
    by fastforce
  from malformed_upstream_body_is_500 [of "fixed_upstream (Inr ?no_json)" default_settings 1]
    ok(2) got
  have two: "http_status (GET_api_users_id (fixed_upstream (Inr ?no_json)) default_settings 1) = 500"
    and three: "http_status (GET_api_users (fixed_upstream (Inr ?no_json)) default_settings) = 500"
    by fastforce+
  from malformed_upstream_body_is_500 [of "fixed_upstream (Inr ?long_name)" default_settings 1]
    shapes(2) ok(3) got
  have four: "http_status (GET_api_users (fixed_upstream (Inr ?long_name)) default_settings) = 500"
    by fastforce
  from malformed_upstream_body_is_500 [of "fixed_upstream (Inr ?object)" default_settings 1]
    shapes(3) ok(4) got
  have five: "http_status (GET_api_users (fixed_upstream (Inr ?object)) default_settings) = 500"
    by fastforce
  from one two three four five show ?thesis by simp
qed

text \<open>
  Claim C3, evaluated where the claim names its scenario: the upstream answers 404 for
  id 999. The body of the 404 response is \<^verbatim>\<open>{"detail": "User with ID 999 not found"}\<close>; it
  has no \<^verbatim>\<open>status_code\<close> field, so it is not the \<^verbatim>\<open>ErrorResponse\<close> that \<^verbatim>\<open>models.py\<close>
  declares and the routes document.
\<close>

theorem get_user_999_error_body:
  "GET_api_users_id
     (fixed_upstream (Inr \<lparr>status_code = 404, text' = ''Not Found'', json = None\<rparr>))
     default_settings 999 =
     \<lparr>http_status = 404,
      content = Json (PyDict [(''detail'', PyStr ''User with ID 999 not found'')])\<rparr> \<and>
   PyDict [(''detail'', PyStr ''User with ID 999 not found'')] \<noteq>
     ErrorResponse_dump \<lparr>detail = ''User with ID 999 not found'', status_code = 404\<rparr>"
  by (simp add: GET_api_users_id_def get_user_def get_user_try_def and_then_def lib_def
      raise_for_status_def is_success_def fixed_upstream_def route_HTTPException
      is_body_allowed_for_status_code_def ErrorResponse_dump_def
      str_int_def str_nat.simps digit_char_def)

end
